theory Spec2Isabelle
  imports Complex_Main "HOL-Library.Log_Nat" "HOL-Library.Sublist"
begin

section \<open>KFDA food download script (scripts/download\_kfda\_foods.py)\<close>

text \<open>
  A shallow embedding of the functions \<open>safe_float\<close>, \<open>parse_food_item\<close>,
  \<open>download_all_foods\<close> and \<open>deduplicate_foods\<close>.

  Conventions of the model.
  \<^item> A Python \<open>str\<close> is a \<open>string\<close>; the characters are read as ASCII, so the white
    space of \<open>str.strip()\<close> and of the regular expression class \<open>\s\<close> is the ASCII part of
    \<open>str.isspace()\<close> (codes 9 to 13 and 28 to 32), and \<open>\d\<close> is \<open>0\<close> to \<open>9\<close>.
  \<^item> A raw item is the function \<open>item.get\<close>: it maps a key to \<open>None\<close> when the key is
    missing (or JSON null) and to the string stored under it otherwise, following the type
    comment \<open>Optional[str]\<close> of \<open>safe_float\<close>.
  \<^item> A Python \<open>float\<close> is an IEEE 754 binary64 value, held as the rational number it
    denotes; \<open>float(s)\<close> and \<open>round(x, 2)\<close> round to the nearest representable value, ties
    to even, as CPython does.
\<close>

subsection \<open>Strings\<close>

definition isspace :: "char \<Rightarrow> bool" where
  "isspace c = (let n = (of_char c :: nat) in (9 \<le> n \<and> n \<le> 13) \<or> (28 \<le> n \<and> n \<le> 32))"

definition isdigit :: "char \<Rightarrow> bool" where
  "isdigit c = (let n = (of_char c :: nat) in 48 \<le> n \<and> n \<le> 57)"

definition digit_val :: "char \<Rightarrow> int" where
  "digit_val c = of_char c - 48"

definition lower :: "char \<Rightarrow> char" where
  "lower c = (let n = (of_char c :: nat) in if 65 \<le> n \<and> n \<le> 90 then char_of (n + 32) else c)"

text \<open>\<open>s.strip()\<close>\<close>

definition strip :: "string \<Rightarrow> string" where
  "strip s = rev (dropWhile isspace (rev (dropWhile isspace s)))"

text \<open>\<open>s.replace(",", "")\<close>\<close>

definition remove_commas :: "string \<Rightarrow> string" where
  "remove_commas s = filter (\<lambda>c. c \<noteq> CHR '','') s"

text \<open>Truth value of an optional string, and \<open>v or ""\<close>.\<close>

definition truthy :: "string option \<Rightarrow> bool" where
  "truthy v = (case v of None \<Rightarrow> False | Some s \<Rightarrow> s \<noteq> [])"

definition or_empty :: "string option \<Rightarrow> string" where
  "or_empty v = (case v of None \<Rightarrow> [] | Some s \<Rightarrow> s)"

text \<open>\<open>s or None\<close>\<close>

definition or_none :: "string \<Rightarrow> string option" where
  "or_none s = (if s = [] then None else Some s)"

subsection \<open>Floats: \<open>float(s)\<close> and \<open>round(x, 2)\<close>\<close>

datatype pyfloat = Finite rat | NegZero | PInf | NInf | NaN

definition round_half_even :: "rat \<Rightarrow> int" where
  "round_half_even q = (let f = \<lfloor>q\<rfloor>; d = q - of_int f in
     if d < 1 / 2 then f else if 1 / 2 < d then f + 1 else if even f then f else f + 1)"

definition pow2 :: "int \<Rightarrow> rat" where
  "pow2 e = (if 0 \<le> e then 2 ^ nat e else 1 / 2 ^ nat (- e))"

definition pow10 :: "int \<Rightarrow> rat" where
  "pow10 e = (if 0 \<le> e then 10 ^ nat e else 1 / 10 ^ nat (- e))"

text \<open>The integer part of the binary logarithm of a positive rational.\<close>

definition ilog2 :: "rat \<Rightarrow> int" where
  "ilog2 a = (let (n, d) = quotient_of a; k = bitlen n - bitlen d
              in if pow2 k \<le> a then k else k - 1)"

text \<open>
  The binary64 value nearest to the magnitude \<open>a \<ge> 0\<close> with the given sign: 53 significant
  bits, least exponent \<open>-1074\<close>, ties to even. The rounded value is \<open>m * 2 ^ e\<close>; it
  overflows to infinity when it reaches \<open>2 ^ 1024\<close>, that is when \<open>m\<close> has more than
  \<open>1024 - e\<close> bits.
\<close>

definition nearest_double :: "bool \<Rightarrow> rat \<Rightarrow> pyfloat" where
  "nearest_double neg a =
     (let e = (if a = 0 then 0 else max (ilog2 a - 52) (- 1074));
          m = round_half_even (a / pow2 e)
      in if 1024 < bitlen m + e then (if neg then NInf else PInf)
         else if m = 0 then (if neg then NegZero else Finite 0)
         else Finite (if neg then - (of_int m * pow2 e) else of_int m * pow2 e))"

text \<open>
  Underscores of a numeric literal: allowed only between two digits; they are removed
  before the number is read. \<open>None\<close> is the \<open>ValueError\<close>.
\<close>

fun drop_underscores :: "char \<Rightarrow> string \<Rightarrow> string option" where
  "drop_underscores prev [] = (if prev = CHR ''_'' then None else Some [])"
| "drop_underscores prev (c # cs) =
     (if c = CHR ''_'' then
        (if isdigit prev then drop_underscores c cs else None)
      else if prev = CHR ''_'' \<and> \<not> isdigit c then None
      else map_option ((#) c) (drop_underscores c cs))"

fun int_of_digits :: "int \<Rightarrow> string \<Rightarrow> int" where
  "int_of_digits acc [] = acc"
| "int_of_digits acc (c # cs) = int_of_digits (10 * acc + digit_val c) cs"

text \<open>An optional sign: whether it is \<open>-\<close>, and the rest.\<close>

fun take_sign :: "string \<Rightarrow> bool \<times> string" where
  "take_sign [] = (False, [])"
| "take_sign (c # cs) =
     (if c = CHR ''-'' then (True, cs) else if c = CHR ''+'' then (False, cs)
      else (False, c # cs))"

text \<open>
  The exponent part: absent (\<open>Some 0\<close>), or \<open>e\<close>/\<open>E\<close>, an optional sign and at least one
  digit up to the end of the string; anything else is left unread, which is an error.
\<close>

definition read_exponent :: "string \<Rightarrow> int option" where
  "read_exponent s =
     (case s of
        [] \<Rightarrow> Some 0
      | c # cs \<Rightarrow>
          if lower c = CHR ''e'' then
            (let (neg, ds) = take_sign cs in
             if ds \<noteq> [] \<and> list_all isdigit ds
             then Some (if neg then - int_of_digits 0 ds else int_of_digits 0 ds)
             else None)
          else None)"

text \<open>A decimal number after its sign: digits, an optional point and digits, an exponent.\<close>

definition read_decimal :: "string \<Rightarrow> rat option" where
  "read_decimal s =
     (let ip = takeWhile isdigit s; r1 = dropWhile isdigit s;
          fp = (case r1 of [] \<Rightarrow> [] | c # cs \<Rightarrow> if c = CHR ''.'' then takeWhile isdigit cs else []);
          r2 = (case r1 of [] \<Rightarrow> [] | c # cs \<Rightarrow> if c = CHR ''.'' then dropWhile isdigit cs else r1)
      in if ip = [] \<and> fp = [] then None
         else case read_exponent r2 of
                None \<Rightarrow> None
              | Some ex \<Rightarrow> Some (of_int (int_of_digits 0 (ip @ fp)) * pow10 (ex - int (length fp))))"

text \<open>\<open>float(s)\<close> for a string \<open>s\<close>; \<open>None\<close> is the \<open>ValueError\<close>.\<close>

definition py_float :: "string \<Rightarrow> pyfloat option" where
  "py_float s =
     (case drop_underscores (CHR 0x00) (strip s) of
        None \<Rightarrow> None
      | Some t \<Rightarrow>
          (let (neg, body) = take_sign t; word = map lower body in
           if word = ''inf'' \<or> word = ''infinity'' then Some (if neg then NInf else PInf)
           else if word = ''nan'' then Some NaN
           else map_option (nearest_double neg) (read_decimal body)))"

text \<open>\<open>round(x, 2)\<close>: infinities and NaN round to themselves.\<close>

fun py_round2 :: "pyfloat \<Rightarrow> pyfloat" where
  "py_round2 (Finite q) = nearest_double (q < 0) (of_int (round_half_even (\<bar>q\<bar> * 100)) / 100)"
| "py_round2 x = x"

subsection \<open>\<open>safe_float\<close>\<close>

text \<open>
  The \<open>ValueError\<close> of \<open>float\<close> is caught and turned into \<open>None\<close>; nothing else in the body
  raises on an optional string.
\<close>

definition safe_float :: "string option \<Rightarrow> pyfloat option" where
  "safe_float value =
     (case value of
        None \<Rightarrow> None
      | Some s \<Rightarrow>
          if strip s = [] then None
          else (let cleaned = remove_commas (strip s) in
                case py_float cleaned of
                  None \<Rightarrow> None
                | Some x \<Rightarrow> Some (py_round2 x)))"

subsection \<open>\<open>parse_food_item\<close>\<close>

type_synonym raw_item = "string \<Rightarrow> string option"

record food =
  foodCd :: "string option"
  name :: string
  calories :: pyfloat
  protein :: "pyfloat option"
  fat :: "pyfloat option"
  carbohydrates :: "pyfloat option"
  sodium :: "pyfloat option"
  fiber :: "pyfloat option"
  sugar :: "pyfloat option"
  servingSize :: "pyfloat option"
  servingUnit :: "string option"
  groupName :: "string option"
  makerName :: "string option"

text \<open>
  The field \<open>foodCd\<close> is optional because \<open>deduplicate_foods\<close> reads it with
  \<open>food.get("foodCd")\<close>; \<open>parse_food_item\<close> always stores a string there.
\<close>

definition numeric_char :: "char \<Rightarrow> bool" where
  "numeric_char c = (isdigit c \<or> c = CHR '','' \<or> c = CHR ''.'')"

definition not_newline :: "char \<Rightarrow> bool" where
  "not_newline c = (c \<noteq> CHR 0x0A)"

text \<open>
  \<open>re.match(r"^([\d,.]+)\s*(.*)$", s)\<close>: the two groups, or \<open>None\<close> for no match. The
  first group is the longest leading run of digits, commas and points, and must not be
  empty; white space is skipped; the second group runs to the first line break, and \<open>$\<close>
  asks that nothing, or only one final line break, comes after it. When this greedy attempt
  fails no other split can match, since every other split leaves the same line break
  unread.
\<close>

definition match_number_unit :: "string \<Rightarrow> (string \<times> string) option" where
  "match_number_unit s =
     (let num = takeWhile numeric_char s;
          r = dropWhile isspace (dropWhile numeric_char s);
          unit = takeWhile not_newline r;
          tail = dropWhile not_newline r
      in if num \<noteq> [] \<and> (tail = [] \<or> tail = [CHR 0x0A]) then Some (num, unit) else None)"

text \<open>\<open>re.match(r"^([\d,.]+)", s)\<close>: the group, or \<open>None\<close>.\<close>

definition match_number :: "string \<Rightarrow> string option" where
  "match_number s = (let num = takeWhile numeric_char s in if num = [] then None else Some num)"

text \<open>Lines 89 to 101: the serving size and unit read from the field \<open>Z10500\<close>.\<close>

definition serving_primary :: "raw_item \<Rightarrow> pyfloat option \<times> string option" where
  "serving_primary item =
     (case item ''Z10500'' of
        None \<Rightarrow> (None, None)
      | Some z_field \<Rightarrow>
          if z_field \<noteq> [] \<and> strip z_field \<noteq> [] then
            (case match_number_unit (strip z_field) of
               None \<Rightarrow> (None, None)
             | Some (num, rest) \<Rightarrow> (safe_float (Some num), or_none (strip rest)))
          else (None, None))"

text \<open>Lines 105 to 110: the serving size read from the field \<open>SERVING_SIZE\<close>.\<close>

definition serving_fallback :: "raw_item \<Rightarrow> pyfloat option" where
  "serving_fallback item =
     (case item ''SERVING_SIZE'' of
        None \<Rightarrow> None
      | Some srv \<Rightarrow>
          if srv \<noteq> [] then
            (case match_number (strip srv) of
               None \<Rightarrow> None
             | Some num \<Rightarrow> safe_float (Some num))
          else None)"

definition maker_name :: "raw_item \<Rightarrow> string option" where
  "maker_name item =
     (if truthy (item ''MAKER_NM'') \<and> strip (or_empty (item ''MAKER_NM'')) \<noteq> ''None''
      then or_none (strip (or_empty (item ''MAKER_NM'')))
      else None)"

definition parse_food_item :: "raw_item \<Rightarrow> food option" where
  "parse_food_item item =
     (let food_cd = strip (or_empty (item ''FOOD_CD''));
          food_nm = strip (or_empty (item ''FOOD_NM_KR''))
      in if food_cd = [] \<or> food_nm = [] then None
         else case safe_float (item ''AMT_NUM1'') of
                None \<Rightarrow> None
              | Some cal \<Rightarrow>
                  (let (size1, serving_unit) = serving_primary item;
                       serving_size = (if size1 = None then serving_fallback item else size1)
                   in Some \<lparr> foodCd = Some food_cd,
                             name = food_nm,
                             calories = cal,
                             protein = safe_float (item ''AMT_NUM3''),
                             fat = safe_float (item ''AMT_NUM4''),
                             carbohydrates = safe_float (item ''AMT_NUM6''),
                             sodium = safe_float (item ''AMT_NUM13''),
                             fiber = safe_float (item ''AMT_NUM8''),
                             sugar = safe_float (item ''AMT_NUM7''),
                             servingSize = serving_size,
                             servingUnit = serving_unit,
                             groupName = or_none (strip (or_empty (item ''FOOD_CAT1_NM''))),
                             makerName = maker_name item \<rparr>))"

subsection \<open>\<open>deduplicate_foods\<close>\<close>

fun dedup_loop :: "string set \<Rightarrow> food list \<Rightarrow> food list \<Rightarrow> food list" where
  "dedup_loop seen unique [] = unique"
| "dedup_loop seen unique (f # foods) =
     (case foodCd f of
        None \<Rightarrow> dedup_loop seen unique foods
      | Some food_cd \<Rightarrow>
          if food_cd \<noteq> [] \<and> food_cd \<notin> seen
          then dedup_loop (insert food_cd seen) (unique @ [f]) foods
          else dedup_loop seen unique foods)"

definition deduplicate_foods :: "food list \<Rightarrow> food list" where
  "deduplicate_foods foods = dedup_loop {} [] foods"

subsection \<open>\<open>download_all_foods\<close>\<close>

text \<open>
  The network is the sequence of results of the successive calls of \<open>fetch_page\<close>: the call
  either raises (\<open>Raises\<close>: HTTP and URL errors, an XML body, undecodable JSON) or returns
  the decoded response. Of a response the loop reads \<open>header.resultCode\<close>,
  \<open>body.totalCount\<close> (an integer, \<open>None\<close> when missing) and \<open>body.items\<close> (a list, a
  single mapping, or anything else; a missing key reads as the empty list).

  What the loop does to the outside is kept in the list \<open>events\<close>: each call of
  \<open>fetch_page\<close> with its page number and each \<open>time.sleep\<close> with its duration. Printing is
  left out.
\<close>

datatype items_field = ItemList "raw_item list" | ItemDict raw_item | ItemOther

record response =
  resultCode :: "string option"
  totalCount :: "int option"
  items :: items_field

datatype fetch_result = Raises | Returns response

datatype event = Fetch nat | Sleep rat

record dl_state =
  all_foods :: "food list"
  page_no :: nat
  total_count :: "int option"
  fetched_count :: nat
  skipped_count :: nat
  retry_count :: nat
  events :: "event list"

definition RATE_LIMIT_DELAY :: rat where
  "RATE_LIMIT_DELAY = 2 / 10"

definition max_retries :: nat where
  "max_retries = 3"

definition sleep :: "rat \<Rightarrow> dl_state \<Rightarrow> dl_state" where
  "sleep d st = st\<lparr>events := events st @ [Sleep d]\<rparr>"

text \<open>Lines 180 to 184.\<close>

fun items_list :: "items_field \<Rightarrow> raw_item list" where
  "items_list (ItemList xs) = xs"
| "items_list (ItemDict x) = [x]"
| "items_list ItemOther = []"

text \<open>Lines 188 to 197: the records kept from a page and the number of items skipped.\<close>

fun scan_items :: "bool \<Rightarrow> raw_item list \<Rightarrow> food list \<Rightarrow> nat \<Rightarrow> food list \<times> nat" where
  "scan_items include_all [] page_foods skipped = (page_foods, skipped)"
| "scan_items include_all (item # rest) page_foods skipped =
     (if \<not> include_all \<and> item ''DB_CLASS_CM'' \<noteq> Some ''01''
      then scan_items include_all rest page_foods (skipped + 1)
      else case parse_food_item item of
             None \<Rightarrow> scan_items include_all rest page_foods skipped
           | Some f \<Rightarrow> scan_items include_all rest (page_foods @ [f]) skipped)"

text \<open>Lines 174 to 199: the state after a page with result code \<open>"00"\<close>.\<close>

definition process_page :: "bool \<Rightarrow> dl_state \<Rightarrow> response \<Rightarrow> dl_state" where
  "process_page include_all st data =
     (let total = (case total_count st of
                     None \<Rightarrow> (case totalCount data of None \<Rightarrow> 0 | Some n \<Rightarrow> n)
                   | Some t \<Rightarrow> t);
          its = items_list (items data);
          (page_foods, skipped) = scan_items include_all its [] (skipped_count st)
      in st\<lparr> total_count := Some total,
              fetched_count := fetched_count st + length its,
              skipped_count := skipped,
              all_foods := all_foods st @ page_foods \<rparr>)"

text \<open>The total count compared at line 205.\<close>

definition known_total :: "dl_state \<Rightarrow> int" where
  "known_total st = (case total_count st of None \<Rightarrow> 0 | Some t \<Rightarrow> t)"

text \<open>
  The three \<open>return\<close> statements: line 162 (no more data), line 209 (download complete) and
  line 221 (retries exhausted). The first two are the state \<open>DONE\<close> of the specification,
  the last is \<open>ABORTED\<close>.
\<close>

datatype exit = DataEnd | Complete | MaxRetries

definition is_done :: "exit \<Rightarrow> bool" where
  "is_done x = (x = DataEnd \<or> x = Complete)"

definition is_aborted :: "exit \<Rightarrow> bool" where
  "is_aborted x = (x = MaxRetries)"

text \<open>
  One pass through the body of the inner \<open>while\<close> loop (lines 151 to 221), for the result
  of its call of \<open>fetch_page\<close>: the loop goes on (\<open>continue\<close>, or the end of the
  \<open>except\<close> block), is left (\<open>break\<close>), or the function returns.
\<close>

datatype step = Continue dl_state | Break dl_state | Return exit dl_state

definition attempt :: "bool \<Rightarrow> dl_state \<Rightarrow> fetch_result \<Rightarrow> step" where
  "attempt include_all st0 r =
     (let st = st0\<lparr>events := events st0 @ [Fetch (page_no st0)]\<rparr> in
      case r of
        Raises \<Rightarrow>
          (let st1 = st\<lparr>retry_count := retry_count st + 1\<rparr> in
           if retry_count st1 < max_retries
           then Continue (sleep (of_int (5 * int (retry_count st1))) st1)
           else Return MaxRetries st1)
      | Returns data \<Rightarrow>
          (let result_code = (case resultCode data of None \<Rightarrow> [] | Some c \<Rightarrow> c) in
           if result_code \<noteq> ''00'' then
             if result_code = ''03'' then Return DataEnd st
             else if result_code = ''22''
             then Continue ((sleep 60 st)\<lparr>retry_count := retry_count st + 1\<rparr>)
             else Continue (sleep 5 (st\<lparr>retry_count := retry_count st + 1\<rparr>))
           else
             (let st1 = process_page include_all st data in
              if items_list (items data) = [] \<or> known_total st1 \<le> int (fetched_count st1)
              then Return Complete st1
              else Break st1)))"

text \<open>Lines 223 and 224, and the first lines (147, 148) of the next pass of the outer loop.\<close>

definition next_page :: "dl_state \<Rightarrow> dl_state" where
  "next_page st = sleep RATE_LIMIT_DELAY (st\<lparr>page_no := page_no st + 1\<rparr>)"

definition start_page :: "dl_state \<Rightarrow> dl_state" where
  "start_page st = st\<lparr>retry_count := 0\<rparr>"

text \<open>
  The result of a run on a finite sequence of fetch results: the function has returned, or
  it is waiting in \<open>fetch_page\<close> for a result the sequence does not hold.
\<close>

datatype outcome = Returned exit dl_state | Waiting dl_state

text \<open>
  The two nested loops from the test of the inner \<open>while\<close> (line 150). When the test
  fails the inner loop ends, and so it does after \<open>break\<close>: the outer loop moves to the
  next page.
\<close>

function download_loop :: "bool \<Rightarrow> dl_state \<Rightarrow> fetch_result list \<Rightarrow> outcome" where
  "download_loop include_all st rs =
     (if retry_count st < max_retries then
        (case rs of
           [] \<Rightarrow> Waiting st
         | r # rs' \<Rightarrow>
             (case attempt include_all st r of
                Continue st' \<Rightarrow> download_loop include_all st' rs'
              | Break st' \<Rightarrow> download_loop include_all (start_page (next_page st')) rs'
              | Return x st' \<Rightarrow> Returned x st'))
      else download_loop include_all (start_page (next_page st)) rs)"
  by pat_completeness auto
termination
  by (relation "measure (\<lambda>(include_all, st, rs).
        2 * length rs + (if retry_count st < max_retries then 0 else 1))")
     (auto simp: start_page_def next_page_def sleep_def max_retries_def)

declare download_loop.simps [simp del]

text \<open>Lines 133 to 137.\<close>

definition init_state :: dl_state where
  "init_state = \<lparr> all_foods = [], page_no = 1, total_count = None, fetched_count = 0,
                   skipped_count = 0, retry_count = 0, events = [] \<rparr>"

definition download_all_foods :: "bool \<Rightarrow> fetch_result list \<Rightarrow> outcome" where
  "download_all_foods include_all rs = download_loop include_all (start_page init_state) rs"

text \<open>The returned list, and the effects so far.\<close>

fun final_state :: "outcome \<Rightarrow> dl_state" where
  "final_state (Returned x st) = st"
| "final_state (Waiting st) = st"

fun returned_foods :: "outcome \<Rightarrow> food list option" where
  "returned_foods (Returned x st) = Some (all_foods st)"
| "returned_foods (Waiting st) = None"

subsection \<open>Specification of deduplication\<close>

text \<open>
  The positions of a list whose record carries a present, non-empty \<open>foodCd\<close> that no earlier
  record of the list carries: the first occurrences of the keys.
\<close>

definition first_positions :: "food list \<Rightarrow> nat set" where
  "first_positions xs =
     {i. i < length xs \<and> truthy (foodCd (xs ! i)) \<and>
         (\<forall>j<i. foodCd (xs ! j) \<noteq> foodCd (xs ! i))}"

text \<open>The same relative to the keys already seen, for the loop invariant.\<close>

definition fresh_key :: "string set \<Rightarrow> food \<Rightarrow> bool" where
  "fresh_key seen f = (\<exists>c. foodCd f = Some c \<and> c \<noteq> [] \<and> c \<notin> seen)"

definition fresh_positions :: "string set \<Rightarrow> food list \<Rightarrow> nat set" where
  "fresh_positions seen xs =
     {i. i < length xs \<and> fresh_key seen (xs ! i) \<and>
         (\<forall>j<i. foodCd (xs ! j) \<noteq> foodCd (xs ! i))}"

subsection \<open>Sample data\<close>

definition base_item :: raw_item where
  "base_item = Map.empty(''FOOD_CD'' \<mapsto> ''A1'', ''FOOD_NM_KR'' \<mapsto> ''Apple'',
     ''AMT_NUM1'' \<mapsto> ''52'')"


definition apple_item :: raw_item where
  "apple_item = base_item(''Z10500'' \<mapsto> ''100.000g'', ''DB_CLASS_CM'' \<mapsto> ''01'')"

definition apple :: food where
  "apple = \<lparr> foodCd = Some ''A1'', name = ''Apple'', calories = Finite 52, protein = None,
     fat = None, carbohydrates = None, sodium = None, fiber = None, sugar = None,
     servingSize = Some (Finite 100), servingUnit = Some ''g'', groupName = None,
     makerName = None \<rparr>"

definition pear :: food where
  "pear = apple\<lparr>foodCd := Some ''B2'', name := ''Pear''\<rparr>"

definition sample_foods :: "food list" where
  "sample_foods =
     [apple, apple\<lparr>foodCd := None\<rparr>, pear, apple\<lparr>name := ''Apple again''\<rparr>,
      apple\<lparr>foodCd := Some []\<rparr>, pear]"

definition rate_limited :: response where
  "rate_limited = \<lparr> resultCode = Some ''22'', totalCount = None, items = ItemList [] \<rparr>"

definition api_error :: response where
  "api_error = \<lparr> resultCode = Some ''99'', totalCount = None, items = ItemList [] \<rparr>"

definition no_more_data :: response where
  "no_more_data = \<lparr> resultCode = Some ''03'', totalCount = None, items = ItemList [] \<rparr>"

definition apple_page :: response where
  "apple_page = \<lparr> resultCode = Some ''00'', totalCount = Some 1, items = ItemList [apple_item] \<rparr>"

definition first_of_five :: response where
  "first_of_five = \<lparr> resultCode = Some ''00'', totalCount = Some 5, items = ItemDict apple_item \<rparr>"

definition empty_page :: response where
  "empty_page = \<lparr> resultCode = Some ''00'', totalCount = Some 5, items = ItemList [] \<rparr>"

text \<open>The state in which the first page is requested.\<close>

definition first_attempt :: dl_state where
  "first_attempt = start_page init_state"

text \<open>The same after two failed attempts at the page.\<close>

definition third_attempt :: dl_state where
  "third_attempt = first_attempt\<lparr>retry_count := 2\<rparr>"

section \<open>Properties\<close>

subsection \<open>Numeric parsing\<close>




subsection \<open>Normalisation of an item\<close>




subsection \<open>Serving size\<close>


lemma strip_Nil [simp]: "strip [] = []"
  by (simp add: strip_def)







subsection \<open>Deduplication\<close>

lemma dedup_loop_append: "dedup_loop seen unique xs = unique @ dedup_loop seen [] xs"
proof (induction xs arbitrary: seen unique)
  case Nil
  then show ?case by simp
next
  case (Cons f fs)
  show ?case
    using Cons.IH[of seen unique] Cons.IH[of "insert c seen" "unique @ [f]" for c]
      Cons.IH[of "insert c seen" "[f]" for c]
    by (auto split: option.splits)
qed

lemma dedup_loop_Cons:
  "dedup_loop seen [] (f # fs) =
     (if fresh_key seen f then f # dedup_loop (seen \<union> set_option (foodCd f)) [] fs
      else dedup_loop seen [] fs)"
  using dedup_loop_append[of _ "[f]" fs]
  by (auto simp: fresh_key_def split: option.splits)

declare dedup_loop.simps(2) [simp del]

lemma fresh_positions_0: "0 \<in> fresh_positions seen (f # fs) \<longleftrightarrow> fresh_key seen f"
  by (simp add: fresh_positions_def)

lemma fresh_positions_Suc:
  "{j. Suc j \<in> fresh_positions seen (f # fs)} =
     (if fresh_key seen f then fresh_positions (seen \<union> set_option (foodCd f)) fs
      else fresh_positions seen fs)"
  by (auto simp: fresh_positions_def All_less_Suc2 fresh_key_def)

lemma dedup_loop_nths: "dedup_loop seen [] xs = nths xs (fresh_positions seen xs)"
proof (induction xs arbitrary: seen)
  case Nil
  then show ?case by simp
next
  case (Cons f fs)
  show ?case
    by (simp add: dedup_loop_Cons nths_Cons fresh_positions_0 fresh_positions_Suc Cons.IH)
qed

lemma dedup_loop_keys:
  "distinct (map foodCd (dedup_loop seen [] xs)) \<and>
   (\<forall>f\<in>set (dedup_loop seen [] xs). fresh_key seen f)"
proof (induction xs arbitrary: seen)
  case Nil
  then show ?case by simp
next
  case (Cons f fs)
  show ?case
    using Cons.IH[of seen] Cons.IH[of "seen \<union> set_option (foodCd f)"]
    by (auto simp: dedup_loop_Cons fresh_key_def)
qed

lemma dedup_loop_key_set:
  "k \<in> foodCd ` set (dedup_loop seen [] xs) \<longleftrightarrow>
     k \<in> foodCd ` set xs \<and> (\<exists>c. k = Some c \<and> c \<noteq> [] \<and> c \<notin> seen)"
proof (induction xs arbitrary: seen)
  case Nil
  then show ?case by simp
next
  case (Cons f fs)
  show ?case
  proof (cases "fresh_key seen f")
    case True
    then obtain c where c: "foodCd f = Some c" "c \<noteq> []" "c \<notin> seen"
      by (auto simp: fresh_key_def)
    show ?thesis
      using True c by (simp add: dedup_loop_Cons Cons.IH) blast
  next
    case False
    then have "\<And>c. foodCd f = Some c \<Longrightarrow> c = [] \<or> c \<in> seen"
      by (auto simp: fresh_key_def)
    then show ?thesis
      using False by (simp add: dedup_loop_Cons Cons.IH) blast
  qed
qed

lemma dedup_loop_fixpoint:
  "distinct (map foodCd ys) \<Longrightarrow> \<forall>f\<in>set ys. fresh_key seen f \<Longrightarrow> dedup_loop seen [] ys = ys"
proof (induction ys arbitrary: seen)
  case Nil
  then show ?case by simp
next
  case (Cons f fs)
  from Cons.prems obtain c where c: "foodCd f = Some c" "c \<noteq> []" "c \<notin> seen"
    by (auto simp: fresh_key_def)
  have "fresh_key (insert c seen) g" if "g \<in> set fs" for g
  proof -
    from that Cons.prems obtain d where d: "foodCd g = Some d" "d \<noteq> []" "d \<notin> seen"
      by (auto simp: fresh_key_def)
    from that Cons.prems c have "foodCd g \<noteq> Some c"
      by (metis distinct.simps(2) image_eqI list.simps(9) set_map)
    with d show ?thesis by (simp add: fresh_key_def)
  qed
  then have "dedup_loop (insert c seen) [] fs = fs"
    using Cons.prems Cons.IH[of "insert c seen"] by simp
  then show ?case
    using Cons.prems c by (simp add: dedup_loop_Cons)
qed

lemma first_positions_fresh: "first_positions xs = fresh_positions {} xs"
  by (auto simp: first_positions_def fresh_positions_def fresh_key_def truthy_def
      split: option.splits)

lemma sample_foods_deduplicated: "deduplicate_foods sample_foods = [apple, pear]"
  by code_simp

text \<open>
  Claim C5. The output of \<open>deduplicate_foods\<close> is the input restricted to the first
  occurrences of its keys, in the order of the input: every distinct \<open>foodCd\<close> of the input
  (a present, non-empty one, as every normalised record has) occurs exactly once in the
  output, carried by the record of its first occurrence. Deduplicating twice is the same as
  deduplicating once.
\<close>

theorem deduplicate_foods_first_occurrences:
  "deduplicate_foods xs = nths xs (first_positions xs) \<and>
   distinct (map foodCd (deduplicate_foods xs)) \<and>
   set (map foodCd (deduplicate_foods xs)) = {k \<in> set (map foodCd xs). truthy k} \<and>
   deduplicate_foods (deduplicate_foods xs) = deduplicate_foods xs"
proof -
  have a: "deduplicate_foods xs = nths xs (first_positions xs)"
    by (simp add: deduplicate_foods_def dedup_loop_nths first_positions_fresh)
  have b: "distinct (map foodCd (deduplicate_foods xs))"
    using dedup_loop_keys[of "{}" xs] by (simp add: deduplicate_foods_def)
  have c: "set (map foodCd (deduplicate_foods xs)) = {k \<in> set (map foodCd xs). truthy k}"
  proof (rule set_eqI)
    fix k
    show "k \<in> set (map foodCd (deduplicate_foods xs)) \<longleftrightarrow>
          k \<in> {k \<in> set (map foodCd xs). truthy k}"
      unfolding set_map deduplicate_foods_def dedup_loop_key_set
      by (cases k) (simp_all add: truthy_def)
  qed
  have d: "deduplicate_foods (deduplicate_foods xs) = deduplicate_foods xs"
    using dedup_loop_keys[of "{}" xs] dedup_loop_fixpoint[of "dedup_loop {} [] xs" "{}"]
    by (simp add: deduplicate_foods_def)
  from a b c d show ?thesis by simp
qed

text \<open>
  Claim C5, at a list of six records in which the key \<open>A1\<close> occurs at positions 0 and 3,
  the key \<open>B2\<close> at positions 2 and 5, and two records have no usable key.
\<close>

theorem deduplicate_foods_first_occurrences_witness:
  "deduplicate_foods sample_foods = [apple, pear] \<and>
   nths sample_foods (first_positions sample_foods) = [apple, pear] \<and>
   distinct (map foodCd [apple, pear]) \<and>
   set (map foodCd [apple, pear]) = {k \<in> set (map foodCd sample_foods). truthy k} \<and>
   deduplicate_foods [apple, pear] = [apple, pear]"
  using deduplicate_foods_first_occurrences[of sample_foods]
  unfolding sample_foods_deduplicated by metis

text \<open>
  Claim C10. Every record in the output of \<open>deduplicate_foods\<close> has a present, non-empty
  \<open>foodCd\<close>; records without one are dropped, and the function is total on every list of
  records.
\<close>

theorem deduplicate_foods_keys_present:
  "\<forall>f\<in>set (deduplicate_foods foods). \<exists>c. foodCd f = Some c \<and> c \<noteq> []"
  using dedup_loop_keys[of "{}" foods]
  by (auto simp: deduplicate_foods_def fresh_key_def)

text \<open>Claim C10, at the same list: the two records without a usable key are gone.\<close>

theorem deduplicate_foods_keys_present_witness:
  "pear \<in> set (deduplicate_foods sample_foods) \<and>
   (\<exists>c. foodCd pear = Some c \<and> c \<noteq> []) \<and>
   apple\<lparr>foodCd := None\<rparr> \<notin> set (deduplicate_foods sample_foods) \<and>
   apple\<lparr>foodCd := Some []\<rparr> \<notin> set (deduplicate_foods sample_foods)"
proof -
  have h: "pear \<in> set (deduplicate_foods sample_foods)"
    by (simp add: sample_foods_deduplicated)
  show ?thesis
    using h deduplicate_foods_keys_present[of sample_foods] by fastforce
qed

subsection \<open>The download loop\<close>

lemma download_loop_fetch:
  "retry_count st < max_retries \<Longrightarrow>
   download_loop ia st (r # rs) =
     (case attempt ia st r of
        Continue st' \<Rightarrow> download_loop ia st' rs
      | Break st' \<Rightarrow> download_loop ia (start_page (next_page st')) rs
      | Return x st' \<Rightarrow> Returned x st')"
  by (subst download_loop.simps) simp

lemma download_loop_exhausted:
  "\<not> retry_count st < max_retries \<Longrightarrow>
   download_loop ia st rs = download_loop ia (start_page (next_page st)) rs"
  by (subst download_loop.simps) simp

lemma download_loop_waiting:
  "retry_count st < max_retries \<Longrightarrow> download_loop ia st [] = Waiting st"
  by (subst download_loop.simps) simp

lemma events_process_page [simp]: "events (process_page ia st data) = events st"
  by (simp add: process_page_def Let_def split: prod.splits)

lemma page_no_process_page [simp]: "page_no (process_page ia st data) = page_no st"
  by (simp add: process_page_def Let_def split: prod.splits)

lemma attempt_events:
  "attempt ia st r = Continue st' \<or> attempt ia st r = Break st' \<or> attempt ia st r = Return x st'
   \<Longrightarrow> prefix (events st @ [Fetch (page_no st)]) (events st') \<and> page_no st' = page_no st"
  by (auto simp: attempt_def Let_def sleep_def split: fetch_result.splits if_splits)

lemma events_next_page: "events (start_page (next_page st)) = events st @ [Sleep RATE_LIMIT_DELAY]"
  by (simp add: start_page_def next_page_def sleep_def)

lemma download_loop_events:
  "prefix (events st) (events (final_state (download_loop ia st rs)))"
proof (induction ia st rs rule: download_loop.induct)
  case (1 ia st rs)
  show ?case
  proof (cases "retry_count st < max_retries")
    case False
    then have "prefix (events (start_page (next_page st)))
                 (events (final_state (download_loop ia st rs)))"
      using "1.IH"(3) by (simp add: download_loop_exhausted)
    then show ?thesis
      by (auto simp: events_next_page dest: append_prefixD)
  next
    case True
    show ?thesis
    proof (cases rs)
      case Nil
      with True show ?thesis by (simp add: download_loop_waiting)
    next
      case (Cons r rs')
      show ?thesis
      proof (cases "attempt ia st r")
        case (Continue st')
        then have "prefix (events st') (events (final_state (download_loop ia st rs)))"
          using True Cons "1.IH"(1) by (simp add: download_loop_fetch)
        moreover have "prefix (events st) (events st')"
          using attempt_events[of ia st r st'] Continue by (auto dest: append_prefixD)
        ultimately show ?thesis by (rule prefix_order.trans[rotated])
      next
        case (Break st')
        then have "prefix (events (start_page (next_page st')))
                     (events (final_state (download_loop ia st rs)))"
          using True Cons "1.IH"(2) by (simp add: download_loop_fetch)
        then have "prefix (events st') (events (final_state (download_loop ia st rs)))"
          by (auto simp: events_next_page dest: append_prefixD)
        moreover have "prefix (events st) (events st')"
          using attempt_events[of ia st r st'] Break by (auto dest: append_prefixD)
        ultimately show ?thesis by (rule prefix_order.trans[rotated])
      next
        case (Return x st')
        then have "prefix (events st) (events st')"
          using attempt_events[of ia st r st' x] by (auto dest: append_prefixD)
        then show ?thesis
          using True Cons Return by (simp add: download_loop_fetch)
      qed
    qed
  qed
qed

lemma download_loop_next_fetch:
  assumes "retry_count st < max_retries"
  shows "prefix (events st @ [Fetch (page_no st)])
           (events (final_state (download_loop ia st (r # rs))))"
proof (cases "attempt ia st r")
  case (Continue st')
  then have "prefix (events st @ [Fetch (page_no st)]) (events st')"
    using attempt_events[of ia st r st'] by simp
  moreover have "prefix (events st') (events (final_state (download_loop ia st' rs)))"
    by (rule download_loop_events)
  ultimately show ?thesis
    using assms Continue by (simp add: download_loop_fetch)
next
  case (Break st')
  then have "prefix (events st @ [Fetch (page_no st)]) (events st')"
    using attempt_events[of ia st r st'] by simp
  moreover have "prefix (events st') (events (start_page (next_page st')))"
    by (simp add: events_next_page)
  moreover have "prefix (events (start_page (next_page st')))
      (events (final_state (download_loop ia (start_page (next_page st')) rs)))"
    by (rule download_loop_events)
  ultimately show ?thesis
    using assms Break by (simp add: download_loop_fetch)
next
  case (Return x st')
  then have "prefix (events st @ [Fetch (page_no st)]) (events st')"
    using attempt_events[of ia st r st' x] by simp
  then show ?thesis
    using assms Return by (simp add: download_loop_fetch)
qed

text \<open>
  Claim C1 fails on the code: a response with result code \<open>"22"\<close> does take a position in
  the retry counter. After one such response the counter of the page is 1, and after two of
  them the first failure of \<open>fetch_page\<close> already ends the run, as a third attempt does.
\<close>

theorem rate_limit_consumes_retry:
  "attempt False first_attempt (Returns rate_limited) =
     Continue \<lparr> all_foods = [], page_no = 1, total_count = None, fetched_count = 0,
                skipped_count = 0, retry_count = 1, events = [Fetch 1, Sleep 60] \<rparr> \<and>
   retry_count first_attempt = 0 \<and>
   download_all_foods False [Returns rate_limited, Returns rate_limited, Raises] =
     Returned MaxRetries
       \<lparr> all_foods = [], page_no = 1, total_count = None, fetched_count = 0,
          skipped_count = 0, retry_count = 3,
          events = [Fetch 1, Sleep 60, Fetch 1, Sleep 60, Fetch 1] \<rparr>"
  by code_simp

text \<open>
  Claim C1, amended. When a fetched page has result code \<open>"22"\<close> the loop sleeps 60 and
  adds one to the retry counter of the page, leaving the page number and the records as
  they are; while the counter stays below the maximum, the next request is for the same
  page number.
\<close>

theorem rate_limit_retry:
  assumes "resultCode data = Some ''22''" and "retry_count st < max_retries"
  shows "attempt ia st (Returns data) =
           Continue (st\<lparr>events := events st @ [Fetch (page_no st), Sleep 60],
                       retry_count := retry_count st + 1\<rparr>) \<and>
         download_loop ia st (Returns data # rs) =
           download_loop ia (st\<lparr>events := events st @ [Fetch (page_no st), Sleep 60],
                               retry_count := retry_count st + 1\<rparr>) rs \<and>
         (retry_count st + 1 < max_retries \<longrightarrow>
            prefix (events st @ [Fetch (page_no st), Sleep 60, Fetch (page_no st)])
              (events (final_state (download_loop ia st (Returns data # r # rs)))))"
proof -
  let ?st = "st\<lparr>events := events st @ [Fetch (page_no st), Sleep 60],
                retry_count := retry_count st + 1\<rparr>"
  have a: "attempt ia st (Returns data) = Continue ?st"
    using assms(1) by (simp add: attempt_def sleep_def)
  have b: "download_loop ia st (Returns data # rs) = download_loop ia ?st rs" for rs
    using assms(2) a by (simp add: download_loop_fetch)
  have c: "prefix (events st @ [Fetch (page_no st), Sleep 60, Fetch (page_no st)])
              (events (final_state (download_loop ia st (Returns data # r # rs))))"
    if "retry_count st + 1 < max_retries"
    using download_loop_next_fetch[of ?st ia r rs] that by (simp add: b)
  from a b c show ?thesis by blast
qed

text \<open>Claim C1, amended, at the first attempt of the first page.\<close>

theorem rate_limit_retry_witness:
  "resultCode rate_limited = Some ''22'' \<and> retry_count first_attempt < max_retries \<and>
   retry_count first_attempt + 1 < max_retries \<and>
   attempt False first_attempt (Returns rate_limited) =
     Continue (first_attempt\<lparr>events := events first_attempt @
                                 [Fetch (page_no first_attempt), Sleep 60],
                               retry_count := retry_count first_attempt + 1\<rparr>) \<and>
   prefix (events first_attempt @
             [Fetch (page_no first_attempt), Sleep 60, Fetch (page_no first_attempt)])
     (events (final_state
        (download_loop False first_attempt [Returns rate_limited, Raises])))"
proof -
  have h1: "resultCode rate_limited = Some ''22''"
    by (simp add: rate_limited_def)
  have h2: "retry_count first_attempt < max_retries"
    by (simp add: first_attempt_def start_page_def max_retries_def)
  have h3: "retry_count first_attempt + 1 < max_retries"
    by (simp add: first_attempt_def start_page_def max_retries_def)
  show ?thesis
    using h1 h2 h3 rate_limit_retry[OF h1 h2, of False "[]" Raises] by blast
qed

text \<open>
  Claim C2, on the code: after three responses with a result code other than \<open>"00"\<close>,
  \<open>"03"\<close> and \<open>"22"\<close> (each followed by a sleep of 5) the run is not ended. The inner
  loop is left by its test, the page number goes from 1 to 2, and the run goes on to return
  the records of page 2.
\<close>

theorem api_error_exhaustion_moves_on:
  "download_all_foods False
     [Returns api_error, Returns api_error, Returns api_error, Returns apple_page] =
     Returned Complete
       \<lparr> all_foods = [apple], page_no = 2, total_count = Some 1, fetched_count = 1,
          skipped_count = 0, retry_count = 0,
          events = [Fetch 1, Sleep 5, Fetch 1, Sleep 5, Fetch 1, Sleep 5, Sleep (2 / 10),
                    Fetch 2] \<rparr>"
  by code_simp

text \<open>
  Claim C3. When \<open>fetch_page\<close> raises, the retry counter of the page goes up by one. While
  it is below the maximum of 3 the loop sleeps 5 times the new counter and requests the same
  page again; when it reaches the maximum the function returns at once, in the state
  \<open>ABORTED\<close>, the records accumulated so far.
\<close>

theorem fetch_failure_retry_or_abort:
  assumes "retry_count st < max_retries"
  shows "max_retries = 3 \<and>
         (retry_count st + 1 < max_retries \<longrightarrow>
            download_loop ia st (Raises # rs) =
              download_loop ia
                (st\<lparr>retry_count := retry_count st + 1,
                    events := events st @ [Fetch (page_no st),
                                           Sleep (of_int (5 * int (retry_count st + 1)))]\<rparr>) rs \<and>
            prefix (events st @ [Fetch (page_no st),
                                 Sleep (of_int (5 * int (retry_count st + 1))),
                                 Fetch (page_no st)])
              (events (final_state (download_loop ia st (Raises # r # rs))))) \<and>
         (\<not> retry_count st + 1 < max_retries \<longrightarrow>
            download_loop ia st (Raises # rs) =
              Returned MaxRetries
                (st\<lparr>events := events st @ [Fetch (page_no st)],
                    retry_count := retry_count st + 1\<rparr>) \<and>
            is_aborted MaxRetries \<and>
            returned_foods (download_loop ia st (Raises # rs)) = Some (all_foods st))"
proof -
  let ?w = "Sleep (of_int (5 * int (retry_count st + 1)))"
  let ?st = "st\<lparr>retry_count := retry_count st + 1,
                events := events st @ [Fetch (page_no st), ?w]\<rparr>"
  have b: "download_loop ia st (Raises # rs) = download_loop ia ?st rs"
    if "retry_count st + 1 < max_retries" for rs
    using assms that by (simp add: download_loop_fetch attempt_def sleep_def)
  have c: "prefix (events st @ [Fetch (page_no st), ?w, Fetch (page_no st)])
              (events (final_state (download_loop ia st (Raises # r # rs))))"
    if "retry_count st + 1 < max_retries"
    using download_loop_next_fetch[of ?st ia r rs] that by (simp add: b)
  have d: "download_loop ia st (Raises # rs) =
             Returned MaxRetries
               (st\<lparr>events := events st @ [Fetch (page_no st)],
                   retry_count := retry_count st + 1\<rparr>)"
    if "\<not> retry_count st + 1 < max_retries"
    using assms that by (simp add: download_loop_fetch attempt_def)
  have e: "max_retries = 3" "is_aborted MaxRetries"
    by (simp_all add: max_retries_def is_aborted_def)
  from b c d e show ?thesis by simp
qed

text \<open>Claim C3, at the first and at the third attempt of the first page.\<close>

theorem fetch_failure_retry_or_abort_witness:
  "retry_count first_attempt < max_retries \<and>
   retry_count first_attempt + 1 < max_retries \<and>
   prefix (events first_attempt @
             [Fetch (page_no first_attempt),
              Sleep (of_int (5 * int (retry_count first_attempt + 1))),
              Fetch (page_no first_attempt)])
     (events (final_state (download_loop False first_attempt [Raises, Raises]))) \<and>
   retry_count third_attempt < max_retries \<and>
   \<not> retry_count third_attempt + 1 < max_retries \<and>
   download_loop False third_attempt [Raises] =
     Returned MaxRetries
       (third_attempt\<lparr>events := events third_attempt @ [Fetch (page_no third_attempt)],
                      retry_count := retry_count third_attempt + 1\<rparr>) \<and>
   returned_foods (download_loop False third_attempt [Raises]) =
     Some (all_foods third_attempt)"
proof -
  have h1: "retry_count first_attempt < max_retries"
    by (simp add: first_attempt_def start_page_def max_retries_def)
  have h2: "retry_count first_attempt + 1 < max_retries"
    by (simp add: first_attempt_def start_page_def max_retries_def)
  have h3: "retry_count third_attempt < max_retries"
    by (simp add: third_attempt_def max_retries_def)
  have h4: "\<not> retry_count third_attempt + 1 < max_retries"
    by (simp add: third_attempt_def max_retries_def)
  show ?thesis
    using h1 h2 h3 h4 fetch_failure_retry_or_abort[OF h1, of False "[]" Raises]
      fetch_failure_retry_or_abort[OF h3, of False "[]"]
    by blast
qed

text \<open>
  Claim C6. A page with result code \<open>"03"\<close> makes the function return at once, in the
  state \<open>DONE\<close>: the returned records are those accumulated before the page, which adds
  none, and nothing happens after the request.
\<close>

theorem no_more_data_returns:
  assumes "resultCode data = Some ''03''" and "retry_count st < max_retries"
  shows "download_loop ia st (Returns data # rs) =
           Returned DataEnd (st\<lparr>events := events st @ [Fetch (page_no st)]\<rparr>) \<and>
         is_done DataEnd \<and>
         returned_foods (download_loop ia st (Returns data # rs)) = Some (all_foods st)"
  using assms by (simp add: download_loop_fetch attempt_def is_done_def)

text \<open>Claim C6, at the first attempt of the first page.\<close>

theorem no_more_data_returns_witness:
  "resultCode no_more_data = Some ''03'' \<and> retry_count first_attempt < max_retries \<and>
   download_loop False first_attempt [Returns no_more_data, Returns apple_page] =
     Returned DataEnd
       (first_attempt\<lparr>events := events first_attempt @ [Fetch (page_no first_attempt)]\<rparr>) \<and>
   returned_foods (download_loop False first_attempt [Returns no_more_data, Returns apple_page])
     = Some (all_foods first_attempt)"
proof -
  have h1: "resultCode no_more_data = Some ''03''"
    by (simp add: no_more_data_def)
  have h2: "retry_count first_attempt < max_retries"
    by (simp add: first_attempt_def start_page_def max_retries_def)
  show ?thesis
    using h1 h2 no_more_data_returns[OF h1 h2, of False "[Returns apple_page]"] by blast
qed

text \<open>
  Claim C7. After a page with result code \<open>"00"\<close> has been processed, the function returns
  the accumulated records, in the state \<open>DONE\<close>, exactly when the page had no raw item or
  the count of fetched items has reached the known total; otherwise the inner loop is left
  and the page number goes up by one. The count of fetched items grows by the number of raw
  items of the page, and the known total is the one of the first successful page.
\<close>

theorem page_termination_check:
  assumes "resultCode data = Some ''00''" and "retry_count st < max_retries"
  shows "let st' = process_page ia (st\<lparr>events := events st @ [Fetch (page_no st)]\<rparr>) data;
             finished = (items_list (items data) = [] \<or>
                         known_total st' \<le> int (fetched_count st'))
         in fetched_count st' = fetched_count st + length (items_list (items data)) \<and>
            known_total st' =
              (case total_count st of
                 None \<Rightarrow> (case totalCount data of None \<Rightarrow> 0 | Some n \<Rightarrow> n)
               | Some t \<Rightarrow> t) \<and>
            (finished \<longrightarrow>
               download_loop ia st (Returns data # rs) = Returned Complete st' \<and>
               is_done Complete) \<and>
            (\<not> finished \<longrightarrow>
               download_loop ia st (Returns data # rs) =
                 download_loop ia (start_page (next_page st')) rs \<and>
               page_no (start_page (next_page st')) = page_no st + 1) \<and>
            ((\<exists>x s. attempt ia st (Returns data) = Return x s) \<longleftrightarrow> finished)"
proof -
  let ?st' = "process_page ia (st\<lparr>events := events st @ [Fetch (page_no st)]\<rparr>) data"
  have f: "fetched_count ?st' = fetched_count st + length (items_list (items data))"
    by (simp add: process_page_def Let_def split: prod.splits)
  have k: "known_total ?st' =
              (case total_count st of
                 None \<Rightarrow> (case totalCount data of None \<Rightarrow> 0 | Some n \<Rightarrow> n)
               | Some t \<Rightarrow> t)"
    by (simp add: process_page_def known_total_def Let_def split: prod.splits)
  have a: "attempt ia st (Returns data) =
             (if items_list (items data) = [] \<or> known_total ?st' \<le> int (fetched_count ?st')
              then Return Complete ?st' else Break ?st')"
    using assms(1) by (simp add: attempt_def Let_def)
  have p: "page_no (start_page (next_page ?st')) = page_no st + 1"
    by (simp add: start_page_def next_page_def sleep_def)
  show ?thesis
    unfolding Let_def
    using f k p assms(2) by (simp add: download_loop_fetch a is_done_def)
qed

lemma page_examples:
  "items_list (items empty_page) = []"
  "known_total (process_page False
     (first_attempt\<lparr>events := events first_attempt @ [Fetch (page_no first_attempt)]\<rparr>)
     empty_page) = 5"
  "fetched_count (process_page False
     (first_attempt\<lparr>events := events first_attempt @ [Fetch (page_no first_attempt)]\<rparr>)
     empty_page) = 0"
  "items_list (items first_of_five) \<noteq> []"
  "known_total (process_page False
     (first_attempt\<lparr>events := events first_attempt @ [Fetch (page_no first_attempt)]\<rparr>)
     first_of_five) = 5"
  "fetched_count (process_page False
     (first_attempt\<lparr>events := events first_attempt @ [Fetch (page_no first_attempt)]\<rparr>)
     first_of_five) = 1"
  by (simp_all add: empty_page_def first_of_five_def process_page_def known_total_def
      first_attempt_def start_page_def init_state_def Let_def split: prod.splits)

text \<open>
  Claim C7, at a first page without items whose reported total is 5 (the run ends although
  0 items of 5 are fetched), and at a first page with one item of 5 (the page number goes
  from 1 to 2).
\<close>

theorem page_termination_check_witness:
  "resultCode empty_page = Some ''00'' \<and> resultCode first_of_five = Some ''00'' \<and>
   retry_count first_attempt < max_retries \<and>
   download_loop False first_attempt [Returns empty_page] =
     Returned Complete
       (process_page False
          (first_attempt\<lparr>events := events first_attempt @ [Fetch (page_no first_attempt)]\<rparr>)
          empty_page) \<and>
   download_loop False first_attempt [Returns first_of_five] =
     download_loop False
       (start_page (next_page (process_page False
          (first_attempt\<lparr>events := events first_attempt @ [Fetch (page_no first_attempt)]\<rparr>)
          first_of_five))) [] \<and>
   page_no (start_page (next_page (process_page False
          (first_attempt\<lparr>events := events first_attempt @ [Fetch (page_no first_attempt)]\<rparr>)
          first_of_five))) = page_no first_attempt + 1"
proof -
  let ?e = "process_page False
     (first_attempt\<lparr>events := events first_attempt @ [Fetch (page_no first_attempt)]\<rparr>)
     empty_page"
  let ?f = "process_page False
     (first_attempt\<lparr>events := events first_attempt @ [Fetch (page_no first_attempt)]\<rparr>)
     first_of_five"
  have h1: "resultCode empty_page = Some ''00''"
    by (simp add: empty_page_def)
  have h2: "resultCode first_of_five = Some ''00''"
    by (simp add: first_of_five_def)
  have h3: "retry_count first_attempt < max_retries"
    by (simp add: first_attempt_def start_page_def max_retries_def)
  have fin: "items_list (items empty_page) = [] \<or> known_total ?e \<le> int (fetched_count ?e)"
    by (simp add: page_examples)
  have more: "\<not> (items_list (items first_of_five) = [] \<or>
                  known_total ?f \<le> int (fetched_count ?f))"
    by (simp add: page_examples)
  have a: "download_loop False first_attempt [Returns empty_page] = Returned Complete ?e"
    using page_termination_check[OF h1 h3, of False "[]"] fin
    unfolding Let_def by blast
  have b: "download_loop False first_attempt [Returns first_of_five] =
             download_loop False (start_page (next_page ?f)) [] \<and>
           page_no (start_page (next_page ?f)) = page_no first_attempt + 1"
    using page_termination_check[OF h2 h3, of False "[]"] more
    unfolding Let_def by blast
  from h1 h2 h3 a b show ?thesis by blast
qed


end
